theory Spec2Isabelle
  imports Main
begin

section \<open>Python values and exceptions\<close>

text \<open>
  The module \<^verbatim>\<open>ambr/models/abyss.py\<close> declares pydantic models that are built from
  the decoded JSON payload of the Spiral Abyss endpoint. A decoded payload is a Python value:
  \<^verbatim>\<open>None\<close>, a \<^verbatim>\<open>bool\<close>, an \<^verbatim>\<open>int\<close> (unbounded), a \<^verbatim>\<open>str\<close>, a \<^verbatim>\<open>list\<close> or a
  \<^verbatim>\<open>dict\<close> with string keys. A dict keeps its insertion order, so it is an association list;
  the keys of a Python dict are pairwise different, which theorems that depend on it assume as
  \<open>distinct (map fst kvs)\<close>. A \<^verbatim>\<open>float\<close> is a value of an abstract type: floating-point
  arithmetic is not modelled, and what Python and pydantic compute from a float is a parameter
  of the model.
\<close>

typedecl pyfloat

datatype json =
    JNull
  | JBool bool
  | JInt int
  | JFloat pyfloat
  | JStr string
  | JList "json list"
  | JObj "(string \<times> json) list"

text \<open>
  The exceptions the modelled code can raise. \<open>OverflowError\<close> also stands for the
  \<^verbatim>\<open>OSError\<close> that \<^verbatim>\<open>datetime.fromtimestamp\<close> raises when the platform cannot convert an
  instant. \<open>NotModelled\<close> marks the parts of \<^verbatim>\<open>str.format\<close> that the model leaves out
  (conversions, attribute and index lookups in a replacement field, and format specifications
  other than a presentation type).
\<close>

datatype py_exception =
  TypeError | ValueError | IndexError | KeyError | OverflowError | NotModelled

text \<open>
  A naive date-time, as \<^verbatim>\<open>datetime.datetime\<close> holds it, is represented by its distance from
  1970-01-01 00:00:00 on the local calendar: \<open>DateTime l\<close> is \<open>l\<close> seconds away, and
  \<open>DateTimeMicro l us\<close> is \<open>l\<close> seconds and \<open>us\<close> microseconds away, which only a float
  timestamp can give. The type ranges from 0001-01-01 to 9999-12-31;
  \<^verbatim>\<open>fromtimestamp\<close> returns the date-times from 0001-01-02 00:00:00 on.
\<close>

datatype datetime = DateTime int | DateTimeMicro int nat

definition datetime_min :: int where
  "datetime_min = - 62135510400"

definition datetime_max :: int where
  "datetime_max = 253402300799"

section \<open>The platform and the library\<close>

text \<open>
  What the code takes from its environment, from pydantic's lax conversions of strings and
  floats, and from floating-point arithmetic is a parameter of the model:
  \<^item> \<open>utcoffset t\<close>: the offset in seconds of the local time zone from UTC at the instant \<open>t\<close>
    (\<^verbatim>\<open>datetime.fromtimestamp\<close> returns local time);
  \<^item> \<open>localtime_min\<close> and \<open>localtime_max\<close>: the instants between which the platform's
    \<^verbatim>\<open>localtime\<close> converts; they enclose the range of \<^verbatim>\<open>datetime\<close> on a platform with a
    64-bit \<^verbatim>\<open>time_t\<close>;
  \<^item> \<open>max_str_digits\<close>: the limit of CPython 3.11 on the number of digits of an integer
    that \<^verbatim>\<open>str\<close> converts (4300 by default, \<open>0\<close> for no limit; CPython admits no
    other limit below 640);
  \<^item> \<open>str_as_int\<close> and \<open>str_as_bool\<close>: the strings that pydantic's lax mode reads as an
    integer or as a boolean, with their values;
  \<^item> \<open>float_as_int\<close> and \<open>float_as_bool\<close>: the same for floats;
  \<^item> \<open>float_truthy\<close>: the truth value of a float;
  \<^item> \<open>float_timestamp\<close>: what \<^verbatim>\<open>datetime.fromtimestamp\<close> does with a float;
  \<^item> \<open>py_repr\<close>: what \<^verbatim>\<open>str(v)\<close> prints for a list or a dict.
\<close>

record pyenv =
  utcoffset :: "int \<Rightarrow> int"
  localtime_min :: int
  localtime_max :: int
  max_str_digits :: nat
  str_as_int :: "string \<Rightarrow> int option"
  str_as_bool :: "string \<Rightarrow> bool option"
  float_as_int :: "pyfloat \<Rightarrow> int option"
  float_as_bool :: "pyfloat \<Rightarrow> bool option"
  float_truthy :: "pyfloat \<Rightarrow> bool"
  float_timestamp :: "pyfloat \<Rightarrow> py_exception + datetime"
  py_repr :: "json \<Rightarrow> string"

section \<open>String operations of the Python runtime\<close>

text \<open>
  A list comprehension or generator expression: the first element whose expression raises
  ends it.
\<close>

fun list_comprehension :: "('a \<Rightarrow> 'e + 'b) \<Rightarrow> 'a list \<Rightarrow> 'e + 'b list" where
  "list_comprehension f [] = Inr []"
| "list_comprehension f (x # xs) =
     (case f x of
        Inl e \<Rightarrow> Inl e
      | Inr y \<Rightarrow> map_sum id ((#) y) (list_comprehension f xs))"

text \<open>\<^verbatim>\<open>sub in s\<close> on strings: \<open>sub\<close> occurs in \<open>s\<close> as a contiguous substring.\<close>

fun str_contains :: "string \<Rightarrow> string \<Rightarrow> bool" where
  "str_contains sub [] = (sub = [])"
| "str_contains sub (c # cs) = (take (length sub) (c # cs) = sub \<or> str_contains sub cs)"

text \<open>
  \<^verbatim>\<open>str(n)\<close> for an integer: its decimal numeral, with a minus sign when negative. When the
  platform limits the digits and the numeral has more, \<^verbatim>\<open>ValueError\<close> is raised.
\<close>

definition digit_char :: "nat \<Rightarrow> char" where
  "digit_char d = ''0123456789'' ! d"

function py_str_nat :: "nat \<Rightarrow> string" where
  "py_str_nat n = (if n < 10 then [digit_char n] else py_str_nat (n div 10) @ [digit_char (n mod 10)])"
  by pat_completeness auto
termination
  by (relation "measure id") auto

declare py_str_nat.simps [simp del]

definition py_str_int :: "pyenv \<Rightarrow> int \<Rightarrow> py_exception + string" where
  "py_str_int env i =
     (let digits = py_str_nat (nat \<bar>i\<bar>)
      in if max_str_digits env \<noteq> 0 \<and> max_str_digits env < length digits then Inl ValueError
         else Inr (if i < 0 then CHR ''-'' # digits else digits))"

text \<open>\<^verbatim>\<open>sep.join(xs)\<close>.\<close>

fun py_join :: "string \<Rightarrow> string list \<Rightarrow> string" where
  "py_join sep [] = []"
| "py_join sep [x] = x"
| "py_join sep (x # y # ys) = x @ sep @ py_join sep (y # ys)"

subsection \<open>\<^verbatim>\<open>str.format\<close> with one positional argument\<close>

text \<open>
  \<^verbatim>\<open>template.format(arg)\<close>, with a string \<open>arg\<close>, scans the template from left to right.
  \<^verbatim>\<open>{{\<close> and \<^verbatim>\<open>}}\<close> stand for one brace; a lone \<^verbatim>\<open>}\<close>, or a \<^verbatim>\<open>{\<close> that is never
  closed, is a \<^verbatim>\<open>ValueError\<close>. A replacement field is a name, then optionally a colon and a
  format specification. The name \<^verbatim>\<open>{}\<close> takes the next positional argument and \<^verbatim>\<open>{n}\<close> the
  argument \<open>n\<close>; with a single argument only index \<open>0\<close> exists, so any other index is an
  \<^verbatim>\<open>IndexError\<close> and any other name is a \<^verbatim>\<open>KeyError\<close>. Automatic and manual numbering
  cannot be mixed; the state of the numbering is carried along. The argument found is then
  formatted by the specification.
\<close>

datatype numbering = Unset | Auto nat | Manual

definition is_digit :: "char \<Rightarrow> bool" where
  "is_digit c = (c \<in> set ''0123456789'')"

definition is_letter :: "char \<Rightarrow> bool" where
  "is_letter c = (c \<in> set ''abcdefghijklmnopqrstuvwxyzABCDEFGHIJKLMNOPQRSTUVWXYZ'')"

definition digits_value :: "string \<Rightarrow> int" where
  "digits_value ds = foldl (\<lambda>a c. 10 * a + (of_char c - 48)) 0 ds"

text \<open>
  The name of a replacement field under the numbering state \<open>st\<close>: it raises, or it finds the
  argument and leaves a new state.
\<close>

definition field_name :: "numbering \<Rightarrow> string \<Rightarrow> py_exception + numbering" where
  "field_name st name =
     (if name = [] then
        (case st of
           Manual \<Rightarrow> Inl ValueError
         | Unset \<Rightarrow> Inr (Auto 1)
         | Auto n \<Rightarrow> if n = 0 then Inr (Auto 1) else Inl IndexError)
      else if list_all is_digit name then
        (if 9223372036854775807 < digits_value name then Inl ValueError
         else
           (case st of
              Auto n \<Rightarrow> Inl ValueError
            | _ \<Rightarrow> if digits_value name = 0 then Inr Manual else Inl IndexError))
      else Inl KeyError)"

text \<open>
  \<^verbatim>\<open>format(arg, spec)\<close> for a string \<open>arg\<close>: the empty specification and the presentation
  type \<^verbatim>\<open>s\<close> give the string itself; any other letter is a presentation type that a string
  does not have, a \<^verbatim>\<open>ValueError\<close>. Fill, alignment, width and precision are not modelled.
\<close>

definition format_spec :: "string \<Rightarrow> string \<Rightarrow> py_exception + string" where
  "format_spec spec arg =
     (if spec = [] \<or> spec = ''s'' then Inr arg
      else if length spec = 1 \<and> is_letter (hd spec) then Inl ValueError
      else Inl NotModelled)"

definition field_not_modelled :: "string \<Rightarrow> bool" where
  "field_not_modelled f = (\<exists>c \<in> set f. c \<in> set ''!.[]'' \<or> 128 \<le> (of_char c :: nat))"

text \<open>
  What a replacement field with the text \<open>field\<close> between its braces does: it raises, or it
  is replaced by a text and leaves a new numbering state.
\<close>

definition replacement_field :: "numbering \<Rightarrow> string \<Rightarrow> string \<Rightarrow> py_exception + numbering \<times> string" where
  "replacement_field st arg field =
     (let name = takeWhile (\<lambda>c. c \<noteq> CHR '':'') field;
          spec = drop (Suc (length name)) field
      in if field_not_modelled field then Inl NotModelled
         else if CHR ''{'' \<in> set name then Inl ValueError
         else if CHR ''{'' \<in> set spec then Inl NotModelled
         else
           (case field_name st name of
              Inl e \<Rightarrow> Inl e
            | Inr st' \<Rightarrow>
                (case format_spec spec arg of
                   Inl e \<Rightarrow> Inl e
                 | Inr out \<Rightarrow> Inr (st', out))))"

function py_format_from :: "numbering \<Rightarrow> string \<Rightarrow> string \<Rightarrow> py_exception + string" where
  "py_format_from st arg [] = Inr []"
| "py_format_from st arg (c # cs) =
     (if c = CHR ''{'' then
        (case cs of
           [] \<Rightarrow> Inl ValueError
         | d # ds \<Rightarrow>
             if d = CHR ''{'' then map_sum id ((#) CHR ''{'') (py_format_from st arg ds)
             else if CHR ''}'' \<notin> set cs then Inl ValueError
             else
               (case replacement_field st arg (takeWhile (\<lambda>x. x \<noteq> CHR ''}'') cs) of
                  Inl e \<Rightarrow> Inl e
                | Inr (st', out) \<Rightarrow>
                    map_sum id ((@) out)
                      (py_format_from st' arg (tl (dropWhile (\<lambda>x. x \<noteq> CHR ''}'') cs)))))
      else if c = CHR ''}'' then
        (case cs of
           [] \<Rightarrow> Inl ValueError
         | d # ds \<Rightarrow>
             if d = CHR ''}'' then map_sum id ((#) CHR ''}'') (py_format_from st arg ds)
             else Inl ValueError)
      else map_sum id ((#) c) (py_format_from st arg cs))"
  by pat_completeness auto
termination
  by (relation "measure (\<lambda>(st, arg, s). length s)")
     (auto simp: less_Suc_eq_le
           intro!: le_SucI le_trans [OF diff_le_self] length_dropWhile_le)

declare py_format_from.simps [simp del]

definition py_format :: "string \<Rightarrow> string \<Rightarrow> py_exception + string" where
  "py_format template arg = py_format_from Unset arg template"

section \<open>The helper \<^verbatim>\<open>remove_html_tags\<close>\<close>

text \<open>
  Modelled from the spec: \<^verbatim>\<open>remove_html_tags\<close> is imported from \<^verbatim>\<open>ambr/utils\<close>, which
  is not part of the sources at hand. The specification describes it as the operation that
  removes all substrings matching an HTML tag pattern \<^verbatim>\<open><...>\<close> and leaves other content,
  entities included, untouched. A tag starts at a \<^verbatim>\<open><\<close> and ends at the next \<^verbatim>\<open>>\<close>;
  a \<^verbatim>\<open><\<close> that is never closed is ordinary text. The specification types its argument as
  a string; the validators that pass it another value are modelled as raising \<^verbatim>\<open>TypeError\<close>,
  as a substitution by regular expression does.
\<close>

function remove_html_tags :: "string \<Rightarrow> string" where
  "remove_html_tags [] = []"
| "remove_html_tags (c # cs) =
     (if c = CHR ''<'' \<and> CHR ''>'' \<in> set cs
      then remove_html_tags (tl (dropWhile (\<lambda>x. x \<noteq> CHR ''>'') cs))
      else c # remove_html_tags cs)"
  by pat_completeness auto
termination
  by (relation "measure length")
     (auto simp: less_Suc_eq_le
           intro!: le_SucI le_trans [OF diff_le_self] length_dropWhile_le)

declare remove_html_tags.simps(2) [simp del]

section \<open>A reference platform\<close>

text \<open>
  A Linux platform in the UTC zone with CPython's default limit on digits. Its string parsers
  read plain decimal numerals and the lower-case words \<^verbatim>\<open>true\<close> and \<^verbatim>\<open>false\<close>; the
  examples below contain no float, and the platform is given the most restrictive reading of
  them.
\<close>

definition decimal_numeral :: "string \<Rightarrow> int option" where
  "decimal_numeral s =
     (if s \<noteq> [] \<and> list_all is_digit s then Some (digits_value s) else None)"

definition utc_env :: pyenv where
  "utc_env =
     \<lparr>utcoffset = (\<lambda>t. 0),
      localtime_min = - 67768040609740800,
      localtime_max = 67768036191676799,
      max_str_digits = 4300,
      str_as_int = decimal_numeral,
      str_as_bool = (\<lambda>s. if s = ''true'' then Some True
                          else if s = ''false'' then Some False else None),
      float_as_int = (\<lambda>f. None),
      float_as_bool = (\<lambda>f. None),
      float_truthy = (\<lambda>f. True),
      float_timestamp = (\<lambda>f. Inl ValueError),
      py_repr = (\<lambda>v. ''[...]'')\<rparr>"

section \<open>Validation results\<close>

text \<open>
  Building a model either returns the object, or raises pydantic's \<^verbatim>\<open>ValidationError\<close>
  with one line per offending field, or lets another exception escape. A line carries the
  location of the field (the aliases and list indices leading to it) and its kind: a required
  field is missing, a value has the wrong type, or a validator raised \<^verbatim>\<open>ValueError\<close>.
\<close>

datatype loc_item = Key string | Idx nat

datatype line_error =
    Missing "loc_item list"
  | TypeMismatch "loc_item list"
  | ValueErr "loc_item list"

datatype failure = Raised py_exception | ValidationError "line_error list"

fun prefix_loc :: "loc_item \<Rightarrow> line_error \<Rightarrow> line_error" where
  "prefix_loc i (Missing l) = Missing (i # l)"
| "prefix_loc i (TypeMismatch l) = TypeMismatch (i # l)"
| "prefix_loc i (ValueErr l) = ValueErr (i # l)"

fun at_loc :: "loc_item \<Rightarrow> failure + 'a \<Rightarrow> failure + 'a" where
  "at_loc i (Inl (ValidationError es)) = Inl (ValidationError (map (prefix_loc i) es))"
| "at_loc i (Inl (Raised e)) = Inl (Raised e)"
| "at_loc i (Inr a) = Inr a"

text \<open>
  Two fields validated one after the other: an exception that is not a validation error
  escapes at once; validation errors of both are collected.
\<close>

fun both :: "failure + 'a \<Rightarrow> failure + 'b \<Rightarrow> failure + ('a \<times> 'b)" where
  "both (Inl (Raised e)) r = Inl (Raised e)"
| "both (Inl (ValidationError es)) (Inl (Raised e)) = Inl (Raised e)"
| "both (Inl (ValidationError es)) (Inl (ValidationError es')) = Inl (ValidationError (es @ es'))"
| "both (Inl (ValidationError es)) (Inr b) = Inl (ValidationError es)"
| "both (Inr a) (Inl f) = Inl f"
| "both (Inr a) (Inr b) = Inr (a, b)"

definition type_error :: "failure + 'a" where
  "type_error = Inl (ValidationError [TypeMismatch []])"

text \<open>
  A field declared with \<^verbatim>\<open>Field(...)\<close> or without default is required; a field with a
  default takes it when the key is absent, and the default is not validated.
\<close>

definition required :: "(string \<times> json) list \<Rightarrow> string \<Rightarrow> (json \<Rightarrow> failure + 'a) \<Rightarrow> failure + 'a" where
  "required d k f =
     (case map_of d k of
        None \<Rightarrow> Inl (ValidationError [Missing [Key k]])
      | Some v \<Rightarrow> at_loc (Key k) (f v))"

definition with_default :: "(string \<times> json) list \<Rightarrow> string \<Rightarrow> 'a \<Rightarrow> (json \<Rightarrow> failure + 'a) \<Rightarrow> failure + 'a" where
  "with_default d k dflt f =
     (case map_of d k of
        None \<Rightarrow> Inr dflt
      | Some v \<Rightarrow> at_loc (Key k) (f v))"

text \<open>
  A function decorated with \<^verbatim>\<open>field_validator\<close>: pydantic turns a \<^verbatim>\<open>ValueError\<close> it raises
  into a line of the validation error. When a model built inside it raises its own
  \<^verbatim>\<open>ValidationError\<close>, the lines of that error become lines of the outer one, with the
  location of the field in front. Any other exception escapes.
\<close>

definition field_validator :: "(json \<Rightarrow> failure + 'a) \<Rightarrow> json \<Rightarrow> failure + 'a" where
  "field_validator f v =
     (case f v of
        Inl (Raised e) \<Rightarrow>
          if e = ValueError then Inl (ValidationError [ValueErr []]) else Inl (Raised e)
      | Inl (ValidationError es) \<Rightarrow> Inl (ValidationError es)
      | Inr a \<Rightarrow> Inr a)"

subsection \<open>The validators of the field types, in pydantic's default (lax) mode\<close>

definition int_validator :: "pyenv \<Rightarrow> json \<Rightarrow> failure + int" where
  "int_validator env v =
     (case v of
        JInt i \<Rightarrow> Inr i
      | JBool b \<Rightarrow> Inr (if b then 1 else 0)
      | JFloat f \<Rightarrow> (case float_as_int env f of Some i \<Rightarrow> Inr i | None \<Rightarrow> type_error)
      | JStr s \<Rightarrow> (case str_as_int env s of Some i \<Rightarrow> Inr i | None \<Rightarrow> type_error)
      | _ \<Rightarrow> type_error)"

definition bool_validator :: "pyenv \<Rightarrow> json \<Rightarrow> failure + bool" where
  "bool_validator env v =
     (case v of
        JBool b \<Rightarrow> Inr b
      | JInt i \<Rightarrow> if i = 0 then Inr False else if i = 1 then Inr True else type_error
      | JFloat f \<Rightarrow> (case float_as_bool env f of Some b \<Rightarrow> Inr b | None \<Rightarrow> type_error)
      | JStr s \<Rightarrow> (case str_as_bool env s of Some b \<Rightarrow> Inr b | None \<Rightarrow> type_error)
      | _ \<Rightarrow> type_error)"

definition str_validator :: "json \<Rightarrow> failure + string" where
  "str_validator v = (case v of JStr s \<Rightarrow> Inr s | _ \<Rightarrow> type_error)"

text \<open>\<^verbatim>\<open>List[T]\<close>: every item is validated, the errors of all items are collected under their index.\<close>

fun validate_items :: "(json \<Rightarrow> failure + 'a) \<Rightarrow> nat \<Rightarrow> json list \<Rightarrow> failure + 'a list" where
  "validate_items f i [] = Inr []"
| "validate_items f i (x # xs) =
     map_sum id (\<lambda>(a, as). a # as) (both (at_loc (Idx i) (f x)) (validate_items f (Suc i) xs))"

definition list_validator :: "(json \<Rightarrow> failure + 'a) \<Rightarrow> json \<Rightarrow> failure + 'a list" where
  "list_validator f v = (case v of JList xs \<Rightarrow> validate_items f 0 xs | _ \<Rightarrow> type_error)"

definition optional_validator :: "(json \<Rightarrow> failure + 'a) \<Rightarrow> json \<Rightarrow> failure + 'a option" where
  "optional_validator f v = (case v of JNull \<Rightarrow> Inr None | _ \<Rightarrow> map_sum id Some (f v))"

text \<open>A field whose type is a model takes a dict and validates it as that model.\<close>

definition model_validator :: "((string \<times> json) list \<Rightarrow> failure + 'a) \<Rightarrow> json \<Rightarrow> failure + 'a" where
  "model_validator validate v = (case v of JObj d \<Rightarrow> validate d | _ \<Rightarrow> type_error)"

text \<open>
  \<^verbatim>\<open>Model(**v)\<close>: unpacking a value that is not a mapping is a \<^verbatim>\<open>TypeError\<close>.
\<close>

definition model_init :: "((string \<times> json) list \<Rightarrow> failure + 'a) \<Rightarrow> json \<Rightarrow> failure + 'a" where
  "model_init validate v = (case v of JObj d \<Rightarrow> validate d | _ \<Rightarrow> Inl (Raised TypeError))"

subsection \<open>Python operations used by the validators\<close>

text \<open>Truth value of a Python object.\<close>

fun py_truthy :: "pyenv \<Rightarrow> json \<Rightarrow> bool" where
  "py_truthy env JNull = False"
| "py_truthy env (JBool b) = b"
| "py_truthy env (JInt i) = (i \<noteq> 0)"
| "py_truthy env (JFloat f) = float_truthy env f"
| "py_truthy env (JStr s) = (s \<noteq> [])"
| "py_truthy env (JList xs) = (xs \<noteq> [])"
| "py_truthy env (JObj d) = (d \<noteq> [])"

text \<open>
  \<^verbatim>\<open>datetime.datetime.fromtimestamp(v)\<close>: the naive local date-time of the instant \<open>v\<close>
  seconds after the epoch. Outside the range of the result type it raises \<^verbatim>\<open>ValueError\<close>
  (year out of range) for an instant that the platform's \<^verbatim>\<open>localtime\<close> converts, and
  \<^verbatim>\<open>OverflowError\<close> or \<^verbatim>\<open>OSError\<close> beyond. A bool counts as the integer 0 or 1; what
  a float gives is the platform's; any other value is a \<^verbatim>\<open>TypeError\<close>.
\<close>

definition from_seconds :: "pyenv \<Rightarrow> int \<Rightarrow> failure + datetime" where
  "from_seconds env t =
     (let l = t + utcoffset env t
      in if datetime_min \<le> l \<and> l \<le> datetime_max then Inr (DateTime l)
         else if localtime_min env \<le> t \<and> t \<le> localtime_max env then Inl (Raised ValueError)
         else Inl (Raised OverflowError))"

definition fromtimestamp :: "pyenv \<Rightarrow> json \<Rightarrow> failure + datetime" where
  "fromtimestamp env v =
     (case v of
        JInt t \<Rightarrow> from_seconds env t
      | JBool b \<Rightarrow> from_seconds env (if b then 1 else 0)
      | JFloat f \<Rightarrow> (case float_timestamp env f of Inl e \<Rightarrow> Inl (Raised e) | Inr dt \<Rightarrow> Inr dt)
      | _ \<Rightarrow> Inl (Raised TypeError))"

text \<open>\<^verbatim>\<open>xs[i]\<close> on a list: a negative index counts from the end.\<close>

definition py_getitem :: "json list \<Rightarrow> int \<Rightarrow> failure + json" where
  "py_getitem xs i =
     (let n = int (length xs); j = (if i < 0 then i + n else i)
      in if 0 \<le> j \<and> j < n then Inr (xs ! nat j) else Inl (Raised IndexError))"

section \<open>The models of \<^verbatim>\<open>ambr/models/abyss.py\<close>\<close>

text \<open>
  Each class is a record of its fields, in the order of declaration, and a function that
  validates a dict against it: the fields are looked up under their alias and validated in
  order. The field \<^verbatim>\<open>id\<close> and the fields that several classes share carry the name of
  their class.
\<close>

subsection \<open>Blessing\<close>

record Blessing =
  blessing_description :: string
  blessing_level_config_name :: string
  blessing_visible :: bool

definition Blessing_format_description :: "json \<Rightarrow> failure + string" where
  "Blessing_format_description v =
     (case v of JStr s \<Rightarrow> Inr (remove_html_tags s) | _ \<Rightarrow> Inl (Raised TypeError))"

definition Blessing_validate :: "pyenv \<Rightarrow> (string \<times> json) list \<Rightarrow> failure + Blessing" where
  "Blessing_validate env d =
     map_sum id
       (\<lambda>(description, level_config_name, visible).
          \<lparr>blessing_description = description,
           blessing_level_config_name = level_config_name,
           blessing_visible = visible\<rparr>)
       (both (required d ''description'' (field_validator Blessing_format_description))
       (both (required d ''levelConfigName'' str_validator)
             (required d ''visible'' (bool_validator env))))"

subsection \<open>ChallengeTarget\<close>

record ChallengeTarget =
  target_type :: string
  target_values :: "int list"

definition ChallengeTarget_validate :: "pyenv \<Rightarrow> (string \<times> json) list \<Rightarrow> failure + ChallengeTarget" where
  "ChallengeTarget_validate env d =
     map_sum id
       (\<lambda>(type, values). \<lparr>target_type = type, target_values = values\<rparr>)
       (both (required d ''type'' str_validator)
             (required d ''values'' (list_validator (int_validator env))))"

text \<open>The property \<^verbatim>\<open>formatted\<close>.\<close>

definition ChallengeTarget_formatted :: "pyenv \<Rightarrow> ChallengeTarget \<Rightarrow> py_exception + string" where
  "ChallengeTarget_formatted env self =
     (case list_comprehension (py_str_int env) (target_values self) of
        Inl e \<Rightarrow> Inl e
      | Inr strs \<Rightarrow> py_format (target_type self) (py_join ''/'' strs))"

subsection \<open>Chamber\<close>

record Chamber =
  chamber_id :: int
  chamber_challenge_target :: ChallengeTarget
  chamber_enemy_level :: int
  chamber_wave_one_enemies :: "int list"
  chamber_wave_two_enemies :: "int list option"

definition Chamber_validate :: "pyenv \<Rightarrow> (string \<times> json) list \<Rightarrow> failure + Chamber" where
  "Chamber_validate env d =
     map_sum id
       (\<lambda>(id, challenge_target, enemy_level, wave_one_enemies, wave_two_enemies).
          \<lparr>chamber_id = id,
           chamber_challenge_target = challenge_target,
           chamber_enemy_level = enemy_level,
           chamber_wave_one_enemies = wave_one_enemies,
           chamber_wave_two_enemies = wave_two_enemies\<rparr>)
       (both (required d ''id'' (int_validator env))
       (both (required d ''challengeTarget'' (model_validator (ChallengeTarget_validate env)))
       (both (required d ''monsterLevel'' (int_validator env))
       (both (required d ''firstMonsterList'' (list_validator (int_validator env)))
             (with_default d ''secondMonsterList'' None
                (optional_validator (list_validator (int_validator env))))))))"

subsection \<open>LeyLineDisorder\<close>

record LeyLineDisorder =
  disorder_description :: string
  disorder_level_config_name :: string
  disorder_visible :: bool

definition LeyLineDisorder_format_description :: "json \<Rightarrow> failure + string" where
  "LeyLineDisorder_format_description v =
     (case v of JStr s \<Rightarrow> Inr (remove_html_tags s) | _ \<Rightarrow> Inl (Raised TypeError))"

definition LeyLineDisorder_validate :: "pyenv \<Rightarrow> (string \<times> json) list \<Rightarrow> failure + LeyLineDisorder" where
  "LeyLineDisorder_validate env d =
     map_sum id
       (\<lambda>(description, level_config_name, visible).
          \<lparr>disorder_description = description,
           disorder_level_config_name = level_config_name,
           disorder_visible = visible\<rparr>)
       (both (required d ''description'' (field_validator LeyLineDisorder_format_description))
       (both (required d ''levelConfigName'' str_validator)
             (required d ''visible'' (bool_validator env))))"

subsection \<open>Floor\<close>

record Floor =
  floor_id :: int
  floor_chambers :: "Chamber list"
  floor_ley_line_disorders :: "LeyLineDisorder list"
  floor_override_enemy_level :: int
  floor_team_num :: int

definition Floor_validate :: "pyenv \<Rightarrow> (string \<times> json) list \<Rightarrow> failure + Floor" where
  "Floor_validate env d =
     map_sum id
       (\<lambda>(id, chambers, ley_line_disorders, override_enemy_level, team_num).
          \<lparr>floor_id = id,
           floor_chambers = chambers,
           floor_ley_line_disorders = ley_line_disorders,
           floor_override_enemy_level = override_enemy_level,
           floor_team_num = team_num\<rparr>)
       (both (required d ''id'' (int_validator env))
       (both (required d ''chamberList''
                (list_validator (model_validator (Chamber_validate env))))
       (both (required d ''leyLineDisorder''
                (list_validator (model_validator (LeyLineDisorder_validate env))))
       (both (required d ''overrideMonsterLevel'' (int_validator env))
             (required d ''teamNum'' (int_validator env))))))"

subsection \<open>AbyssData\<close>

record AbyssData =
  data_open_time :: "datetime option"
  data_floors :: "Floor list"

definition AbyssData_format_open_time :: "pyenv \<Rightarrow> json \<Rightarrow> failure + datetime option" where
  "AbyssData_format_open_time env v =
     (if py_truthy env v then map_sum id Some (fromtimestamp env v) else Inr None)"

definition AbyssData_validate :: "pyenv \<Rightarrow> (string \<times> json) list \<Rightarrow> failure + AbyssData" where
  "AbyssData_validate env d =
     map_sum id
       (\<lambda>(open_time, floors). \<lparr>data_open_time = open_time, data_floors = floors\<rparr>)
       (both (with_default d ''openTime'' None
                (field_validator (AbyssData_format_open_time env)))
             (required d ''floorList''
                (list_validator (model_validator (Floor_validate env)))))"

subsection \<open>Abyss\<close>

record Abyss =
  abyss_id :: int
  abyss_close_time :: datetime
  abyss_blessing :: Blessing
  abyss_corridor :: AbyssData
  abyssal_moon_spire :: AbyssData

definition Abyss_format_close_time :: "pyenv \<Rightarrow> json \<Rightarrow> failure + datetime" where
  "Abyss_format_close_time env v = fromtimestamp env v"

definition Abyss_validate :: "pyenv \<Rightarrow> (string \<times> json) list \<Rightarrow> failure + Abyss" where
  "Abyss_validate env d =
     map_sum id
       (\<lambda>(id, close_time, blessing, corridor, moon_spire).
          \<lparr>abyss_id = id,
           abyss_close_time = close_time,
           abyss_blessing = blessing,
           abyss_corridor = corridor,
           abyssal_moon_spire = moon_spire\<rparr>)
       (both (required d ''id'' (int_validator env))
       (both (required d ''closeTime'' (field_validator (Abyss_format_close_time env)))
       (both (required d ''blessing'' (model_validator (Blessing_validate env)))
       (both (required d ''entrance'' (model_validator (AbyssData_validate env)))
             (required d ''schedule'' (model_validator (AbyssData_validate env)))))))"

subsection \<open>AbyssEnemy\<close>

record AbyssEnemy =
  enemy_icon :: string
  enemy_id :: int
  enemy_link :: bool
  enemy_name :: string

text \<open>
  The f-string of \<^verbatim>\<open>_convert_icon_url\<close>. The test \<^verbatim>\<open>'MonsterIcon' in v\<close> is a substring
  test on a string, a membership test on a list and a key test on a dict, and a
  \<^verbatim>\<open>TypeError\<close> on anything else.
\<close>

definition icon_url :: "bool \<Rightarrow> string \<Rightarrow> string" where
  "icon_url monster name =
     ''https://api.ambr.top/assets/UI'' @ (if monster then ''/monster'' else [])
       @ ''/'' @ name @ ''.png''"

definition AbyssEnemy_convert_icon_url :: "pyenv \<Rightarrow> json \<Rightarrow> failure + string" where
  "AbyssEnemy_convert_icon_url env v =
     (case v of
        JStr s \<Rightarrow> Inr (icon_url (str_contains ''MonsterIcon'' s) s)
      | JList xs \<Rightarrow> Inr (icon_url (JStr ''MonsterIcon'' \<in> set xs) (py_repr env v))
      | JObj d \<Rightarrow> Inr (icon_url (''MonsterIcon'' \<in> set (map fst d)) (py_repr env v))
      | _ \<Rightarrow> Inl (Raised TypeError))"

definition AbyssEnemy_validate :: "pyenv \<Rightarrow> (string \<times> json) list \<Rightarrow> failure + AbyssEnemy" where
  "AbyssEnemy_validate env d =
     map_sum id
       (\<lambda>(icon, id, link, name).
          \<lparr>enemy_icon = icon, enemy_id = id, enemy_link = link, enemy_name = name\<rparr>)
       (both (required d ''icon'' (field_validator (AbyssEnemy_convert_icon_url env)))
       (both (required d ''id'' (int_validator env))
       (both (required d ''link'' (bool_validator env))
             (required d ''name'' str_validator))))"

subsection \<open>AbyssResponse\<close>

record AbyssResponse =
  enemies :: "AbyssEnemy list"
  abyss_items :: "Abyss list"

text \<open>
  \<^verbatim>\<open>[Model(**v[item_id]) for item_id in v]\<close>: iterating a dict yields its keys in insertion
  order; iterating a list yields its items, which are then used as indices into the list;
  iterating a string yields its characters, which cannot index it; anything else is not
  iterable.
\<close>

definition keyed_items :: "(json \<Rightarrow> failure + 'a) \<Rightarrow> json \<Rightarrow> failure + 'a list" where
  "keyed_items init v =
     (case v of
        JObj kvs \<Rightarrow>
          list_comprehension
            (\<lambda>item_id. case map_of kvs item_id of
                          None \<Rightarrow> Inl (Raised KeyError)
                        | Some x \<Rightarrow> init x)
            (map fst kvs)
      | JList xs \<Rightarrow>
          list_comprehension
            (\<lambda>item_id. case item_id of
                          JInt i \<Rightarrow>
                            (case py_getitem xs i of Inl e \<Rightarrow> Inl e | Inr x \<Rightarrow> init x)
                        | JBool b \<Rightarrow>
                            (case py_getitem xs (if b then 1 else 0) of
                               Inl e \<Rightarrow> Inl e
                             | Inr x \<Rightarrow> init x)
                        | _ \<Rightarrow> Inl (Raised TypeError))
            xs
      | JStr s \<Rightarrow> list_comprehension (\<lambda>item_id. Inl (Raised TypeError)) s
      | _ \<Rightarrow> Inl (Raised TypeError))"

definition AbyssResponse_convert_enemies :: "pyenv \<Rightarrow> json \<Rightarrow> failure + AbyssEnemy list" where
  "AbyssResponse_convert_enemies env v = keyed_items (model_init (AbyssEnemy_validate env)) v"

definition AbyssResponse_convert_abyss_items :: "pyenv \<Rightarrow> json \<Rightarrow> failure + Abyss list" where
  "AbyssResponse_convert_abyss_items env v = keyed_items (model_init (Abyss_validate env)) v"

definition AbyssResponse_validate :: "pyenv \<Rightarrow> (string \<times> json) list \<Rightarrow> failure + AbyssResponse" where
  "AbyssResponse_validate env d =
     map_sum id
       (\<lambda>(enemies, abyss_items). \<lparr>enemies = enemies, abyss_items = abyss_items\<rparr>)
       (both (required d ''monsterList'' (field_validator (AbyssResponse_convert_enemies env)))
             (required d ''items'' (field_validator (AbyssResponse_convert_abyss_items env))))"

text \<open>The top-level parse: \<^verbatim>\<open>AbyssResponse(**data)\<close>.\<close>

definition parse_AbyssResponse :: "pyenv \<Rightarrow> json \<Rightarrow> failure + AbyssResponse" where
  "parse_AbyssResponse env data = model_init (AbyssResponse_validate env) data"

section \<open>Templates with one placeholder\<close>

text \<open>
  A challenge-target template with exactly one placeholder is text without braces, then
  \<^verbatim>\<open>{}\<close> or \<^verbatim>\<open>{0}\<close>, then text without braces.
\<close>

definition brace_free :: "string \<Rightarrow> bool" where
  "brace_free s = (CHR ''{'' \<notin> set s \<and> CHR ''}'' \<notin> set s)"

text \<open>
  The string \<open>s\<close> is the decimal numeral of the integer \<open>v\<close>: digits only, after a minus sign
  when \<open>v\<close> is negative, no leading zero, and the value \<open>v\<close>.
\<close>

definition numeral_of :: "string \<Rightarrow> int \<Rightarrow> bool" where
  "numeral_of ds n =
     (ds \<noteq> [] \<and> list_all is_digit ds \<and> (if hd ds = CHR ''0'' then ds = ''0'' else True)
      \<and> digits_value ds = n)"

definition decimal_of :: "string \<Rightarrow> int \<Rightarrow> bool" where
  "decimal_of s v =
     (if v < 0 then s \<noteq> [] \<and> hd s = CHR ''-'' \<and> numeral_of (tl s) (- v)
      else numeral_of s v)"

section \<open>The wire schema and the documented transforms\<close>





















text \<open>Reading a payload without checks.\<close>

definition field :: "(string \<times> json) list \<Rightarrow> string \<Rightarrow> json" where
  "field d k = (case map_of d k of None \<Rightarrow> JNull | Some v \<Rightarrow> v)"

definition the_string :: "json \<Rightarrow> string" where
  "the_string v = (case v of JStr s \<Rightarrow> s | _ \<Rightarrow> [])"

definition the_integer :: "json \<Rightarrow> int" where
  "the_integer v = (case v of JInt i \<Rightarrow> i | _ \<Rightarrow> 0)"

definition the_boolean :: "json \<Rightarrow> bool" where
  "the_boolean v = (case v of JBool b \<Rightarrow> b | _ \<Rightarrow> False)"

definition the_list :: "json \<Rightarrow> json list" where
  "the_list v = (case v of JList xs \<Rightarrow> xs | _ \<Rightarrow> [])"

definition the_object :: "json \<Rightarrow> (string \<times> json) list" where
  "the_object v = (case v of JObj d \<Rightarrow> d | _ \<Rightarrow> [])"

text \<open>The transforms of the specification's section 4.1.\<close>

definition parseIconUrl :: "string \<Rightarrow> string" where
  "parseIconUrl raw =
     (if str_contains ''MonsterIcon'' raw
      then ''https://api.ambr.top/assets/UI/monster/'' @ raw @ ''.png''
      else ''https://api.ambr.top/assets/UI/'' @ raw @ ''.png'')"

definition stripHtmlTags :: "string \<Rightarrow> string" where
  "stripHtmlTags raw = remove_html_tags raw"

definition parseTimestamp :: "pyenv \<Rightarrow> int \<Rightarrow> datetime" where
  "parseTimestamp env raw = DateTime (raw + utcoffset env raw)"

definition parseOpenTime :: "pyenv \<Rightarrow> json \<Rightarrow> datetime option" where
  "parseOpenTime env v =
     (case v of
        JInt raw \<Rightarrow> if raw = 0 then None else Some (parseTimestamp env raw)
      | _ \<Rightarrow> None)"

definition mapKeyedCollection :: "(string \<times> json) list \<Rightarrow> (json \<Rightarrow> 'a) \<Rightarrow> 'a list" where
  "mapKeyedCollection raw itemParser = map (\<lambda>(k, v). itemParser v) raw"

definition integers :: "json \<Rightarrow> int list" where
  "integers v = map the_integer (the_list v)"

text \<open>The object graph that the specification expects for a payload.\<close>

definition expected_Enemy :: "json \<Rightarrow> AbyssEnemy" where
  "expected_Enemy v =
     (let d = the_object v
      in \<lparr>enemy_icon = parseIconUrl (the_string (field d ''icon'')),
          enemy_id = the_integer (field d ''id''),
          enemy_link = the_boolean (field d ''link''),
          enemy_name = the_string (field d ''name'')\<rparr>)"

definition expected_Blessing :: "json \<Rightarrow> Blessing" where
  "expected_Blessing v =
     (let d = the_object v
      in \<lparr>blessing_description = stripHtmlTags (the_string (field d ''description'')),
          blessing_level_config_name = the_string (field d ''levelConfigName''),
          blessing_visible = the_boolean (field d ''visible'')\<rparr>)"

definition expected_LeyLineDisorder :: "json \<Rightarrow> LeyLineDisorder" where
  "expected_LeyLineDisorder v =
     (let d = the_object v
      in \<lparr>disorder_description = stripHtmlTags (the_string (field d ''description'')),
          disorder_level_config_name = the_string (field d ''levelConfigName''),
          disorder_visible = the_boolean (field d ''visible'')\<rparr>)"

definition expected_ChallengeTarget :: "json \<Rightarrow> ChallengeTarget" where
  "expected_ChallengeTarget v =
     (let d = the_object v
      in \<lparr>target_type = the_string (field d ''type''),
          target_values = integers (field d ''values'')\<rparr>)"

definition expected_Chamber :: "json \<Rightarrow> Chamber" where
  "expected_Chamber v =
     (let d = the_object v
      in \<lparr>chamber_id = the_integer (field d ''id''),
          chamber_challenge_target = expected_ChallengeTarget (field d ''challengeTarget''),
          chamber_enemy_level = the_integer (field d ''monsterLevel''),
          chamber_wave_one_enemies = integers (field d ''firstMonsterList''),
          chamber_wave_two_enemies = map_option integers (map_of d ''secondMonsterList'')\<rparr>)"

definition expected_Floor :: "json \<Rightarrow> Floor" where
  "expected_Floor v =
     (let d = the_object v
      in \<lparr>floor_id = the_integer (field d ''id''),
          floor_chambers = map expected_Chamber (the_list (field d ''chamberList'')),
          floor_ley_line_disorders =
            map expected_LeyLineDisorder (the_list (field d ''leyLineDisorder'')),
          floor_override_enemy_level = the_integer (field d ''overrideMonsterLevel''),
          floor_team_num = the_integer (field d ''teamNum'')\<rparr>)"

definition expected_Schedule :: "pyenv \<Rightarrow> json \<Rightarrow> AbyssData" where
  "expected_Schedule env v =
     (let d = the_object v
      in \<lparr>data_open_time = parseOpenTime env (field d ''openTime''),
          data_floors = map expected_Floor (the_list (field d ''floorList''))\<rparr>)"

definition expected_Cycle :: "pyenv \<Rightarrow> json \<Rightarrow> Abyss" where
  "expected_Cycle env v =
     (let d = the_object v
      in \<lparr>abyss_id = the_integer (field d ''id''),
          abyss_close_time = parseTimestamp env (the_integer (field d ''closeTime'')),
          abyss_blessing = expected_Blessing (field d ''blessing''),
          abyss_corridor = expected_Schedule env (field d ''entrance''),
          abyssal_moon_spire = expected_Schedule env (field d ''schedule'')\<rparr>)"

definition expected_Response :: "pyenv \<Rightarrow> json \<Rightarrow> AbyssResponse" where
  "expected_Response env v =
     (let d = the_object v
      in \<lparr>enemies = mapKeyedCollection (the_object (field d ''monsterList'')) expected_Enemy,
          abyss_items =
            mapKeyedCollection (the_object (field d ''items'')) (expected_Cycle env)\<rparr>)"

section \<open>A sample payload\<close>









section \<open>The payloads the parser accepts\<close>


















section \<open>Attribute assignment on a constructed model\<close>

text \<open>
  The nine classes derive from pydantic's \<^verbatim>\<open>BaseModel\<close> and none of them declares a
  \<^verbatim>\<open>model_config\<close>, so pydantic's defaults apply to all: \<^verbatim>\<open>frozen\<close> is off and
  \<^verbatim>\<open>validate_assignment\<close> is off. An instance keeps the values of its fields in its
  \<^verbatim>\<open>__dict__\<close> under the names of the attributes. \<^verbatim>\<open>BaseModel.__setattr__\<close>, which is part
  of the public interface of every instance, refuses the assignment when the model is frozen,
  when the name is a property without setter, or when the name is not a field; otherwise it
  stores the value under the name without validating it.
\<close>

datatype model_class =
    AbyssEnemy_class
  | Blessing_class
  | ChallengeTarget_class
  | Chamber_class
  | LeyLineDisorder_class
  | Floor_class
  | AbyssData_class
  | Abyss_class
  | AbyssResponse_class

fun model_fields :: "model_class \<Rightarrow> string list" where
  "model_fields Blessing_class = [''description'', ''level_config_name'', ''visible'']"
| "model_fields ChallengeTarget_class = [''type'', ''values'']"
| "model_fields Chamber_class =
     [''id'', ''challenge_target'', ''enemy_level'', ''wave_one_enemies'', ''wave_two_enemies'']"
| "model_fields LeyLineDisorder_class = [''description'', ''level_config_name'', ''visible'']"
| "model_fields Floor_class =
     [''id'', ''chambers'', ''ley_line_disorders'', ''override_enemy_level'', ''team_num'']"
| "model_fields AbyssData_class = [''open_time'', ''floors'']"
| "model_fields Abyss_class =
     [''id'', ''close_time'', ''blessing'', ''abyss_corridor'', ''abyssal_moon_spire'']"
| "model_fields AbyssEnemy_class = [''icon'', ''id'', ''link'', ''name'']"
| "model_fields AbyssResponse_class = [''enemies'', ''abyss_items'']"

fun model_properties :: "model_class \<Rightarrow> string list" where
  "model_properties ChallengeTarget_class = [''formatted'']"
| "model_properties cls = []"

definition model_config_frozen :: "model_class \<Rightarrow> bool" where
  "model_config_frozen cls = False"

datatype setattr_error = FrozenInstance | NoSetter | NoSuchField

fun dict_set :: "string \<Rightarrow> 'v \<Rightarrow> (string \<times> 'v) list \<Rightarrow> (string \<times> 'v) list" where
  "dict_set k v [] = [(k, v)]"
| "dict_set k v ((k', v') # kvs) =
     (if k' = k then (k, v) # kvs else (k', v') # dict_set k v kvs)"

definition BaseModel_setattr ::
  "model_class \<Rightarrow> (string \<times> 'v) list \<Rightarrow> string \<Rightarrow> 'v \<Rightarrow> setattr_error + (string \<times> 'v) list" where
  "BaseModel_setattr cls self name v =
     (if model_config_frozen cls then Inl FrozenInstance
      else if name \<in> set (model_properties cls) then Inl NoSetter
      else if name \<notin> set (model_fields cls) then Inl NoSuchField
      else Inr (dict_set name v self))"

text \<open>The \<^verbatim>\<open>__dict__\<close> of a Blessing built by the parser.\<close>

definition Blessing_dict :: "Blessing \<Rightarrow> (string \<times> json) list" where
  "Blessing_dict b =
     [(''description'', JStr (blessing_description b)),
      (''level_config_name'', JStr (blessing_level_config_name b)),
      (''visible'', JBool (blessing_visible b))]"

section \<open>Verified properties\<close>

subsection \<open>The icon URL\<close>

lemma take_eq_prefix: "take (length sub) s = sub \<longleftrightarrow> (\<exists>q. s = sub @ q)"
  by (metis append_eq_conv_conj)

lemma str_contains_iff: "str_contains sub s \<longleftrightarrow> (\<exists>p q. s = p @ sub @ q)"
proof (induction s)
  case Nil
  then show ?case by auto
next
  case (Cons c cs)
  have "(\<exists>p q. c # cs = p @ sub @ q) \<longleftrightarrow> (\<exists>q. c # cs = sub @ q) \<or> (\<exists>p q. cs = p @ sub @ q)"
  proof
    assume "\<exists>p q. c # cs = p @ sub @ q"
    then obtain p q where pq: "c # cs = p @ sub @ q" by blast
    show "(\<exists>q. c # cs = sub @ q) \<or> (\<exists>p q. cs = p @ sub @ q)"
    proof (cases p)
      case Nil
      with pq show ?thesis by auto
    next
      case (Cons a p')
      with pq have "cs = p' @ sub @ q" by simp
      then show ?thesis by blast
    qed
  next
    assume "(\<exists>q. c # cs = sub @ q) \<or> (\<exists>p q. cs = p @ sub @ q)"
    then show "\<exists>p q. c # cs = p @ sub @ q"
    proof
      assume "\<exists>q. c # cs = sub @ q"
      then obtain q where "c # cs = [] @ sub @ q" by auto
      then show ?thesis by blast
    next
      assume "\<exists>p q. cs = p @ sub @ q"
      then obtain p q where "cs = p @ sub @ q" by blast
      then have "c # cs = (c # p) @ sub @ q" by simp
      then show ?thesis by blast
    qed
  qed
  with Cons.IH show ?case
    by (simp only: str_contains.simps take_eq_prefix)
qed

text \<open>
  C5. For every string \<open>raw\<close> (empty or not, well-formed file name or not) the icon validator
  returns a URL and never fails: \<^verbatim>\<open>https://api.ambr.top/assets/UI/monster/<raw>.png\<close> when
  \<open>raw\<close> contains the substring \<^verbatim>\<open>MonsterIcon\<close>, and
  \<^verbatim>\<open>https://api.ambr.top/assets/UI/<raw>.png\<close> otherwise.
\<close>

theorem icon_url_of_string:
  "AbyssEnemy_convert_icon_url env (JStr raw) =
     Inr (if (\<exists>p q. raw = p @ ''MonsterIcon'' @ q)
          then ''https://api.ambr.top/assets/UI/monster/'' @ raw @ ''.png''
          else ''https://api.ambr.top/assets/UI/'' @ raw @ ''.png'')"
  by (simp add: AbyssEnemy_convert_icon_url_def icon_url_def str_contains_iff)

theorem icon_url_of_string_witness:
  "AbyssEnemy_convert_icon_url utc_env (JStr ''MonsterIcon_Test'') =
     Inr ''https://api.ambr.top/assets/UI/monster/MonsterIcon_Test.png''
   \<and> AbyssEnemy_convert_icon_url utc_env (JStr ''Other_Test'') =
     Inr ''https://api.ambr.top/assets/UI/Other_Test.png''"
proof -
  have a: "(\<exists>p q. ''MonsterIcon_Test'' = p @ ''MonsterIcon'' @ q) = True"
    by (subst str_contains_iff [symmetric]) simp
  have b: "(\<exists>p q. ''Other_Test'' = p @ ''MonsterIcon'' @ q) = False"
    by (subst str_contains_iff [symmetric]) simp
  show ?thesis
    using icon_url_of_string [of utc_env "''MonsterIcon_Test''"]
          icon_url_of_string [of utc_env "''Other_Test''"]
    unfolding a b by simp
qed

subsection \<open>When validation succeeds\<close>

lemma map_sum_Inr_iff: "map_sum g f r = Inr y \<longleftrightarrow> (\<exists>x. r = Inr x \<and> y = f x)"
  by (cases r) auto

lemma both_Inr_iff: "both a b = Inr p \<longleftrightarrow> (\<exists>x y. a = Inr x \<and> b = Inr y \<and> p = (x, y))"
  by (induction a b rule: both.induct) auto

lemma at_loc_Inr_iff: "at_loc i r = Inr a \<longleftrightarrow> r = Inr a"
  by (induction i r rule: at_loc.induct) auto

lemma required_Inr_iff:
  "required d k f = Inr a \<longleftrightarrow> (\<exists>v. map_of d k = Some v \<and> f v = Inr a)"
  by (simp add: required_def at_loc_Inr_iff split: option.splits)

lemma with_default_Inr_iff:
  "with_default d k dflt f = Inr a \<longleftrightarrow>
     (map_of d k = None \<and> a = dflt) \<or> (\<exists>v. map_of d k = Some v \<and> f v = Inr a)"
  by (auto simp: with_default_def at_loc_Inr_iff split: option.splits)

lemma field_validator_Inr_iff: "field_validator f v = Inr a \<longleftrightarrow> f v = Inr a"
  by (simp add: field_validator_def split: sum.splits failure.splits)

lemma validate_items_Inr_iff:
  "validate_items f i xs = Inr ys \<longleftrightarrow> list_all2 (\<lambda>x y. f x = Inr y) xs ys"
proof (induction xs arbitrary: i ys)
  case Nil
  then show ?case by auto
next
  case (Cons x xs)
  show ?case
    by (cases ys) (auto simp: map_sum_Inr_iff both_Inr_iff at_loc_Inr_iff Cons.IH)
qed

lemma list_validator_Inr_iff:
  "list_validator f v = Inr ys \<longleftrightarrow> (\<exists>xs. v = JList xs \<and> list_all2 (\<lambda>x y. f x = Inr y) xs ys)"
  by (cases v) (simp_all add: list_validator_def type_error_def validate_items_Inr_iff)

lemma model_validator_Inr_iff:
  "model_validator validate v = Inr a \<longleftrightarrow> (\<exists>d. v = JObj d \<and> validate d = Inr a)"
  by (cases v) (simp_all add: model_validator_def type_error_def)

lemma model_init_Inr_iff:
  "model_init validate v = Inr a \<longleftrightarrow> (\<exists>d. v = JObj d \<and> validate d = Inr a)"
  by (cases v) (simp_all add: model_init_def)

lemma optional_validator_Inr_iff:
  "optional_validator f v = Inr a \<longleftrightarrow> (v = JNull \<and> a = None) \<or> (v \<noteq> JNull \<and> (\<exists>x. f v = Inr x \<and> a = Some x))"
  by (cases v) (auto simp: optional_validator_def map_sum_Inr_iff)

lemma list_comprehension_Inr_iff:
  "list_comprehension f xs = Inr ys \<longleftrightarrow> list_all2 (\<lambda>x y. f x = Inr y) xs ys"
proof (induction xs arbitrary: ys)
  case Nil
  then show ?case by auto
next
  case (Cons x xs)
  show ?case
    by (cases ys; cases "f x") (auto simp: map_sum_Inr_iff Cons.IH)
qed

lemma str_validator_Inr_iff: "str_validator v = Inr s \<longleftrightarrow> v = JStr s"
  by (cases v) (simp_all add: str_validator_def type_error_def)

text \<open>Iterating a dict with pairwise different keys visits its values in order.\<close>

lemma list_comprehension_cong:
  "(\<And>x. x \<in> set xs \<Longrightarrow> f x = g x) \<Longrightarrow> list_comprehension f xs = list_comprehension g xs"
  by (induction xs) (simp_all split: sum.splits)

lemma list_comprehension_map:
  "list_comprehension f (map h xs) = list_comprehension (f \<circ> h) xs"
  by (induction xs) (simp_all split: sum.splits)

lemma keyed_items_dict:
  assumes "distinct (map fst kvs)"
  shows "keyed_items init (JObj kvs) = list_comprehension init (map snd kvs)"
proof -
  have "list_comprehension
          (\<lambda>item_id. case map_of kvs item_id of None \<Rightarrow> Inl (Raised KeyError) | Some x \<Rightarrow> init x)
          (map fst kvs)
        = list_comprehension (init \<circ> snd) kvs"
    unfolding list_comprehension_map
    by (rule list_comprehension_cong) (use assms in \<open>auto simp: comp_def\<close>)
  then show ?thesis
    by (simp add: keyed_items_def list_comprehension_map)
qed

lemma AbyssData_validate_Inr_iff:
  "AbyssData_validate env d = Inr a \<longleftrightarrow>
     (\<exists>ot fl. with_default d ''openTime'' None (field_validator (AbyssData_format_open_time env)) = Inr ot
        \<and> required d ''floorList'' (list_validator (model_validator (Floor_validate env))) = Inr fl
        \<and> a = \<lparr>data_open_time = ot, data_floors = fl\<rparr>)"
  by (auto simp: AbyssData_validate_def map_sum_Inr_iff both_Inr_iff)

lemma AbyssResponse_validate_Inr_iff:
  "AbyssResponse_validate env d = Inr r \<longleftrightarrow>
     (\<exists>ml it es cs. map_of d ''monsterList'' = Some ml \<and> map_of d ''items'' = Some it
        \<and> AbyssResponse_convert_enemies env ml = Inr es
        \<and> AbyssResponse_convert_abyss_items env it = Inr cs
        \<and> r = \<lparr>enemies = es, abyss_items = cs\<rparr>)"
  by (auto simp: AbyssResponse_validate_def map_sum_Inr_iff both_Inr_iff required_Inr_iff
                 field_validator_Inr_iff)

subsection \<open>The formatted challenge target\<close>

text \<open>\<open>py_str_nat\<close> writes the decimal numeral of its argument: reading it back gives the number.\<close>

lemma digits_value_snoc: "digits_value (ds @ [c]) = 10 * digits_value ds + (of_char c - 48)"
  by (simp add: digits_value_def)

lemma of_char_digit_char: "d < 10 \<Longrightarrow> (of_char (digit_char d) :: int) = 48 + int d"
proof -
  assume "d < 10"
  then have "d \<in> {0, 1, 2, 3, 4, 5, 6, 7, 8, 9}" by auto
  then show ?thesis by (auto simp: digit_char_def)
qed

lemma py_str_nat_value: "digits_value (py_str_nat n) = int n"
proof (induction n rule: py_str_nat.induct)
  case (1 n)
  show ?case
  proof (cases "n < 10")
    case True
    then show ?thesis
      by (subst py_str_nat.simps) (simp add: digits_value_def of_char_digit_char)
  next
    case False
    have "digits_value (py_str_nat n) = 10 * digits_value (py_str_nat (n div 10)) + int (n mod 10)"
      using False by (subst py_str_nat.simps) (simp add: digits_value_snoc of_char_digit_char)
    also have "\<dots> = int n"
      using "1.IH" [OF False] by (simp add: zmod_int zdiv_int)
    finally show ?thesis .
  qed
qed

lemma format_literal:
  "brace_free pre \<Longrightarrow>
     py_format_from st arg (pre @ rest) = map_sum id ((@) pre) (py_format_from st arg rest)"
proof (induction pre)
  case Nil
  show ?case by (cases "py_format_from st arg rest") simp_all
next
  case (Cons c cs)
  then have c: "c \<noteq> CHR ''{''" "c \<noteq> CHR ''}''" and cs: "brace_free cs"
    by (auto simp: brace_free_def)
  have "py_format_from st arg ((c # cs) @ rest) = map_sum id ((#) c) (py_format_from st arg (cs @ rest))"
    using c by (simp add: py_format_from.simps)
  also have "\<dots> = map_sum id ((#) c) (map_sum id ((@) cs) (py_format_from st arg rest))"
    by (simp only: Cons.IH [OF cs])
  also have "\<dots> = map_sum id ((@) (c # cs)) (py_format_from st arg rest)"
    by (cases "py_format_from st arg rest") simp_all
  finally show ?case .
qed

lemma format_brace_free: "brace_free s \<Longrightarrow> py_format_from st arg s = Inr s"
  using format_literal [of s st arg "[]"] by (simp add: py_format_from.simps)

lemma format_field_auto:
  "py_format_from Unset arg (''{}'' @ rest) = map_sum id ((@) arg) (py_format_from (Auto 1) arg rest)"
  by (simp add: py_format_from.simps replacement_field_def field_not_modelled_def
                field_name_def format_spec_def)

lemma format_field_zero:
  "py_format_from Unset arg (''{0}'' @ rest) = map_sum id ((@) arg) (py_format_from Manual arg rest)"
  by (simp add: py_format_from.simps replacement_field_def field_not_modelled_def
                field_name_def format_spec_def is_digit_def digits_value_def)

lemma format_single_placeholder:
  assumes "brace_free pre" "brace_free post" "ph = ''{}'' \<or> ph = ''{0}''"
  shows "py_format (pre @ ph @ post) arg = Inr (pre @ arg @ post)"
proof -
  from assms(3) have "py_format_from Unset arg (ph @ post) = Inr (arg @ post)"
    using format_field_auto [of arg post] format_field_zero [of arg post]
          format_brace_free [OF assms(2)]
    by auto
  then show ?thesis
    using format_literal [OF assms(1), of Unset arg "ph @ post"]
    by (simp add: py_format_def)
qed

text \<open>The numeral that \<open>py_str_nat\<close> writes is the decimal numeral of its argument.\<close>

lemma digit_char_cases: "(d :: nat) < 10 \<Longrightarrow> d \<in> {0, 1, 2, 3, 4, 5, 6, 7, 8, 9}"
  by auto

lemma digit_char_is_digit: "d < 10 \<Longrightarrow> is_digit (digit_char d)"
  using digit_char_cases [of d] by (auto simp: digit_char_def is_digit_def)

lemma digit_char_zero: "d < 10 \<Longrightarrow> digit_char d = CHR ''0'' \<longleftrightarrow> d = 0"
  using digit_char_cases [of d] by (auto simp: digit_char_def)

lemma py_str_nat_not_Nil: "py_str_nat n \<noteq> []"
  by (subst py_str_nat.simps) simp

lemma py_str_nat_digits: "list_all is_digit (py_str_nat n)"
proof (induction n rule: py_str_nat.induct)
  case (1 n)
  show ?case
  proof (cases "n < 10")
    case True
    then show ?thesis
      by (subst py_str_nat.simps) (simp add: digit_char_is_digit)
  next
    case False
    then show ?thesis
      using "1.IH" [OF False] by (subst py_str_nat.simps) (simp add: digit_char_is_digit)
  qed
qed

lemma py_str_nat_hd: "0 < n \<Longrightarrow> hd (py_str_nat n) \<noteq> CHR ''0''"
proof (induction n rule: py_str_nat.induct)
  case (1 n)
  show ?case
  proof (cases "n < 10")
    case True
    then show ?thesis
      using "1.prems" by (subst py_str_nat.simps) (simp add: digit_char_zero)
  next
    case False
    then have "0 < n div 10" by simp
    from "1.IH" [OF False this] show ?thesis
      using False by (subst py_str_nat.simps) (simp add: py_str_nat_not_Nil)
  qed
qed

lemma py_str_nat_zero: "py_str_nat 0 = ''0''"
  by (subst py_str_nat.simps) (simp add: digit_char_def)

lemma numeral_of_str_nat: "numeral_of (py_str_nat n) (int n)"
proof (cases "n = 0")
  case True
  then show ?thesis
    by (simp add: numeral_of_def py_str_nat_zero is_digit_def digits_value_def)
next
  case False
  then show ?thesis
    using py_str_nat_hd [of n]
    by (simp add: numeral_of_def py_str_nat_not_Nil py_str_nat_digits py_str_nat_value)
qed

lemma py_str_nat_length: "n < 10 ^ k \<Longrightarrow> 0 < k \<Longrightarrow> length (py_str_nat n) \<le> k"
proof (induction n arbitrary: k rule: py_str_nat.induct)
  case (1 n)
  show ?case
  proof (cases "n < 10")
    case True
    then show ?thesis
      using "1.prems" by (subst py_str_nat.simps) simp
  next
    case False
    obtain j where k: "k = Suc j"
      using "1.prems"(2) by (cases k) auto
    have "n div 10 < 10 ^ j"
      using "1.prems"(1) k by (simp add: less_mult_imp_div_less mult.commute)
    moreover have "0 < j"
      using False "1.prems"(1) k by (cases j) auto
    ultimately have "length (py_str_nat (n div 10)) \<le> j"
      by (rule "1.IH" [OF False])
    then show ?thesis
      using False k by (subst py_str_nat.simps) simp
  qed
qed

lemma py_str_int_decimal:
  assumes "max_str_digits env = 0 \<or> \<bar>v\<bar> < 10 ^ max_str_digits env"
  shows "\<exists>s. py_str_int env v = Inr s \<and> decimal_of s v"
proof -
  have fits: "length (py_str_nat (nat \<bar>v\<bar>)) \<le> max_str_digits env" if "max_str_digits env \<noteq> 0"
  proof -
    from assms that have "\<bar>v\<bar> < 10 ^ max_str_digits env" by simp
    then have "nat \<bar>v\<bar> < 10 ^ max_str_digits env"
      by (simp add: nat_less_iff)
    then show ?thesis
      using that by (intro py_str_nat_length) simp_all
  qed
  have "numeral_of (py_str_nat (nat \<bar>v\<bar>)) \<bar>v\<bar>"
    using numeral_of_str_nat [of "nat \<bar>v\<bar>"] by simp
  then show ?thesis
    using fits by (auto simp: py_str_int_def decimal_of_def Let_def)
qed

lemma str_of_values:
  assumes "\<forall>v \<in> set vs. max_str_digits env = 0 \<or> \<bar>v\<bar> < 10 ^ max_str_digits env"
  shows "\<exists>strs. list_comprehension (py_str_int env) vs = Inr strs \<and> list_all2 decimal_of strs vs"
  using assms
proof (induction vs)
  case Nil
  then show ?case by simp
next
  case (Cons v vs)
  from Cons.prems obtain s where s: "py_str_int env v = Inr s" "decimal_of s v"
    using py_str_int_decimal [of env v] by auto
  from Cons obtain strs where
    strs: "list_comprehension (py_str_int env) vs = Inr strs" "list_all2 decimal_of strs vs"
    by auto
  show ?case
    using s strs by simp
qed

lemma py_join_concat:
  "xs \<noteq> [] \<Longrightarrow> py_join sep xs = concat (map (\<lambda>s. s @ sep) (butlast xs)) @ last xs"
  by (induction sep xs rule: py_join.induct) simp_all

text \<open>A number has one decimal numeral, so \<open>decimal_of\<close> determines the string.\<close>

lemma digits_value_nonneg: "list_all is_digit ds \<Longrightarrow> 0 \<le> digits_value ds"
proof (induction ds rule: rev_induct)
  case Nil
  show ?case by (simp add: digits_value_def)
next
  case (snoc c ds)
  then have "is_digit c" and "0 \<le> digits_value ds" by simp_all
  then show ?case
    by (auto simp: digits_value_snoc is_digit_def)
qed

lemma is_digit_digit_char:
  "is_digit c \<Longrightarrow> \<exists>d < 10. c = digit_char d \<and> (of_char c :: int) - 48 = int d"
proof -
  assume "is_digit c"
  then consider "c = CHR ''0''" | "c = CHR ''1''" | "c = CHR ''2''" | "c = CHR ''3''"
    | "c = CHR ''4''" | "c = CHR ''5''" | "c = CHR ''6''" | "c = CHR ''7''"
    | "c = CHR ''8''" | "c = CHR ''9''"
    by (auto simp: is_digit_def)
  then show ?thesis
  proof cases
    case 1 then show ?thesis by (intro exI [of _ 0]) (simp add: digit_char_def)
  next
    case 2 then show ?thesis by (intro exI [of _ 1]) (simp add: digit_char_def)
  next
    case 3 then show ?thesis by (intro exI [of _ 2]) (simp add: digit_char_def)
  next
    case 4 then show ?thesis by (intro exI [of _ 3]) (simp add: digit_char_def)
  next
    case 5 then show ?thesis by (intro exI [of _ 4]) (simp add: digit_char_def)
  next
    case 6 then show ?thesis by (intro exI [of _ 5]) (simp add: digit_char_def)
  next
    case 7 then show ?thesis by (intro exI [of _ 6]) (simp add: digit_char_def)
  next
    case 8 then show ?thesis by (intro exI [of _ 7]) (simp add: digit_char_def)
  next
    case 9 then show ?thesis by (intro exI [of _ 8]) (simp add: digit_char_def)
  next
    case 10 then show ?thesis by (intro exI [of _ 9]) (simp add: digit_char_def)
  qed
qed

lemma numeral_of_unique: "numeral_of ds n \<Longrightarrow> ds = py_str_nat (nat n)"
proof (induction ds arbitrary: n rule: rev_induct)
  case Nil
  then show ?case by (simp add: numeral_of_def)
next
  case (snoc c ds)
  from snoc.prems have digits: "list_all is_digit ds" and c: "is_digit c"
    and n: "n = 10 * digits_value ds + (of_char c - 48)"
    and lead: "hd (ds @ [c]) = CHR ''0'' \<Longrightarrow> ds = []"
    by (auto simp: numeral_of_def digits_value_snoc split: if_splits)
  from c obtain d where d: "d < 10" "c = digit_char d" "(of_char c :: int) - 48 = int d"
    using is_digit_digit_char by blast
  show ?case
  proof (cases "ds = []")
    case True
    then have "n = int d"
      using n d by (simp add: digits_value_def)
    then show ?thesis
      using True d by (subst py_str_nat.simps) simp
  next
    case False
    then have "hd ds \<noteq> CHR ''0''"
      using lead by auto
    then have "numeral_of ds (digits_value ds)"
      using False digits by (simp add: numeral_of_def)
    then have ds: "ds = py_str_nat (nat (digits_value ds))"
      by (rule snoc.IH)
    have "nat (digits_value ds) \<noteq> 0"
    proof
      assume "nat (digits_value ds) = 0"
      then have "ds = ''0''"
        using ds py_str_nat_zero by simp
      then show False
        using \<open>hd ds \<noteq> CHR ''0''\<close> by simp
    qed
    then have pos: "0 < digits_value ds"
      by simp
    have m: "nat n = 10 * nat (digits_value ds) + d"
      using n d pos by (simp add: nat_add_distrib nat_mult_distrib)
    then have "\<not> nat n < 10" "nat n div 10 = nat (digits_value ds)" "nat n mod 10 = d"
      using pos d by simp_all
    then have "py_str_nat (nat n) = py_str_nat (nat (digits_value ds)) @ [digit_char d]"
      by (subst py_str_nat.simps) simp
    then show ?thesis
      using ds d by simp
  qed
qed

lemma decimal_of_unique: "decimal_of s v \<Longrightarrow> decimal_of t v \<Longrightarrow> s = t"
proof (cases "v < 0")
  case True
  assume "decimal_of s v" "decimal_of t v"
  then have "s \<noteq> []" "t \<noteq> []" "hd s = hd t" "tl s = tl t"
    using True numeral_of_unique [of "tl s" "- v"] numeral_of_unique [of "tl t" "- v"]
    by (simp_all add: decimal_of_def)
  then show ?thesis by (simp add: list.expand)
next
  case False
  assume "decimal_of s v" "decimal_of t v"
  then show ?thesis
    using False numeral_of_unique [of s v] numeral_of_unique [of t v]
    by (simp add: decimal_of_def)
qed

text \<open>
  C6 (amended). Let the template \<open>type\<close> be brace-free text around one placeholder \<^verbatim>\<open>{}\<close> or \<^verbatim>\<open>{0}\<close>,
  and let \<open>values\<close> be a non-empty sequence of integers, each within the limit of the platform
  on the digits that \<^verbatim>\<open>str\<close> converts. Then \<^verbatim>\<open>formatted\<close> returns \<open>type\<close> with the
  placeholder replaced by the decimal numerals of the values, in order, with a \<^verbatim>\<open>/\<close> after
  each numeral but the last. The numerals are characterised by \<open>decimal_of\<close>, independently of
  the functions that compute them, and \<open>decimal_of_unique\<close> shows that this fixes the string.
  For \<^verbatim>\<open>Defeat all enemies within {0}s\<close> the values \<open>[90]\<close> give
  \<^verbatim>\<open>Defeat all enemies within 90s\<close> and the values \<open>[-5, 2, 30]\<close> give
  \<^verbatim>\<open>Defeat all enemies within -5/2/30s\<close>.
\<close>

theorem formatted_single_placeholder:
  assumes "brace_free pre" and "brace_free post" and "ph = ''{}'' \<or> ph = ''{0}''"
    and "vs \<noteq> []"
    and "\<forall>v \<in> set vs. max_str_digits env = 0 \<or> \<bar>v\<bar> < 10 ^ max_str_digits env"
  shows "\<exists>strs. list_all2 decimal_of strs vs
           \<and> ChallengeTarget_formatted env \<lparr>target_type = pre @ ph @ post, target_values = vs\<rparr>
               = Inr (pre @ concat (map (\<lambda>s. s @ ''/'') (butlast strs)) @ last strs @ post)"
proof -
  from str_of_values [OF assms(5)] obtain strs where
    strs: "list_comprehension (py_str_int env) vs = Inr strs" "list_all2 decimal_of strs vs"
    by blast
  from strs(2) assms(4) have "strs \<noteq> []"
    by auto
  then have "py_join ''/'' strs = concat (map (\<lambda>s. s @ ''/'') (butlast strs)) @ last strs"
    by (rule py_join_concat)
  then have "ChallengeTarget_formatted env \<lparr>target_type = pre @ ph @ post, target_values = vs\<rparr>
               = Inr (pre @ concat (map (\<lambda>s. s @ ''/'') (butlast strs)) @ last strs @ post)"
    using format_single_placeholder [OF assms(1-3), of "py_join ''/'' strs"] strs(1)
    by (simp add: ChallengeTarget_formatted_def)
  with strs(2) show ?thesis
    by blast
qed

theorem formatted_single_placeholder_witness:
  "(\<exists>strs. list_all2 decimal_of strs [- 5, 2, 30]
      \<and> ChallengeTarget_formatted utc_env
          \<lparr>target_type = ''Defeat all enemies within {0}s'', target_values = [- 5, 2, 30]\<rparr>
        = Inr (''Defeat all enemies within ''
               @ concat (map (\<lambda>s. s @ ''/'') (butlast strs)) @ last strs @ ''s''))
   \<and> list_all2 decimal_of [''-5'', ''2'', ''30''] [- 5, 2, 30]
   \<and> ChallengeTarget_formatted utc_env
       \<lparr>target_type = ''Defeat all enemies within {0}s'', target_values = [- 5, 2, 30]\<rparr>
     = Inr ''Defeat all enemies within -5/2/30s''
   \<and> ChallengeTarget_formatted utc_env
       \<lparr>target_type = ''Defeat all enemies within {0}s'', target_values = [90]\<rparr>
     = Inr ''Defeat all enemies within 90s''"
proof -
  have small: "\<forall>v \<in> set [- 5, 2, 30]. max_str_digits utc_env = 0
                 \<or> \<bar>v\<bar> < (10 :: int) ^ max_str_digits utc_env"
  proof -
    have "2 \<le> max_str_digits utc_env"
      by (simp add: utc_env_def)
    then have "(10 :: int) ^ 2 \<le> 10 ^ max_str_digits utc_env"
      by (rule power_increasing) simp
    then have "(100 :: int) \<le> 10 ^ max_str_digits utc_env"
      by simp
    then show ?thesis
      by auto
  qed
  have eval: "py_str_nat 5 = ''5''" "py_str_nat 2 = ''2''" "py_str_nat 30 = ''30''"
    "py_str_nat 90 = ''90''"
    by (simp_all add: py_str_nat.simps digit_char_def)
  have first: "\<exists>strs. list_all2 decimal_of strs [- 5, 2, 30]
      \<and> ChallengeTarget_formatted utc_env
          \<lparr>target_type = ''Defeat all enemies within {0}s'', target_values = [- 5, 2, 30]\<rparr>
        = Inr (''Defeat all enemies within ''
               @ concat (map (\<lambda>s. s @ ''/'') (butlast strs)) @ last strs @ ''s'')"
    using formatted_single_placeholder
            [of "''Defeat all enemies within ''" "''s''" "''{0}''" "[- 5, 2, 30]" utc_env]
          small
    by (simp add: brace_free_def)
  have dec: "list_all2 decimal_of [''-5'', ''2'', ''30''] [- 5, 2, 30]"
    by (simp add: decimal_of_def numeral_of_def is_digit_def digits_value_def)
  have strs: "py_str_int utc_env (- 5) = Inr ''-5''" "py_str_int utc_env 2 = Inr ''2''"
    "py_str_int utc_env 30 = Inr ''30''" "py_str_int utc_env 90 = Inr ''90''"
    by (simp_all add: py_str_int_def utc_env_def eval)
  have run: "py_format ''Defeat all enemies within {0}s'' arg
               = Inr (''Defeat all enemies within '' @ arg @ ''s'')" for arg
    using format_single_placeholder [of "''Defeat all enemies within ''" "''s''" "''{0}''" arg]
    by (simp add: brace_free_def)
  have three: "ChallengeTarget_formatted utc_env
       \<lparr>target_type = ''Defeat all enemies within {0}s'', target_values = [- 5, 2, 30]\<rparr>
     = Inr ''Defeat all enemies within -5/2/30s''"
    by (simp add: ChallengeTarget_formatted_def strs run)
  have one: "ChallengeTarget_formatted utc_env
       \<lparr>target_type = ''Defeat all enemies within {0}s'', target_values = [90]\<rparr>
     = Inr ''Defeat all enemies within 90s''"
    by (simp add: ChallengeTarget_formatted_def strs run)
  from first dec three one show ?thesis
    by (intro conjI)
qed

text \<open>
  C6 as stated fails: a template whose one placeholder carries a format specification has
  exactly one placeholder, but \<^verbatim>\<open>{0:d}\<close> asks for the integer presentation of the joined
  string, and the property raises \<^verbatim>\<open>ValueError\<close>.
\<close>

theorem formatted_integer_presentation_counterexample:
  "ChallengeTarget_formatted utc_env
     \<lparr>target_type = ''Defeat all enemies within {0:d}s'', target_values = [90]\<rparr>
     = Inl ValueError"
proof -
  have "py_str_nat 90 = ''90''"
    by (simp add: py_str_nat.simps digit_char_def)
  then have "py_str_int utc_env 90 = Inr ''90''"
    by (simp add: py_str_int_def utc_env_def)
  moreover have "py_format ''Defeat all enemies within {0:d}s'' ''90'' = Inl ValueError"
    by (simp add: py_format_def py_format_from.simps replacement_field_def
                  field_not_modelled_def field_name_def format_spec_def is_digit_def
                  is_letter_def digits_value_def)
  ultimately show ?thesis
    by (simp add: ChallengeTarget_formatted_def)
qed

text \<open>
  C10 (amended). For a template that is brace-free text around one placeholder \<^verbatim>\<open>{}\<close> or \<^verbatim>\<open>{0}\<close>,
  \<^verbatim>\<open>formatted\<close> on an empty sequence of values raises nothing: it returns the template with
  the placeholder replaced by the empty string.
\<close>

theorem formatted_empty_values:
  assumes "brace_free pre" and "brace_free post" and "ph = ''{}'' \<or> ph = ''{0}''"
  shows "ChallengeTarget_formatted env \<lparr>target_type = pre @ ph @ post, target_values = []\<rparr>
           = Inr (pre @ post)"
  using format_single_placeholder [OF assms, of "[]"] by (simp add: ChallengeTarget_formatted_def)

theorem formatted_empty_values_witness:
  "ChallengeTarget_formatted utc_env
     \<lparr>target_type = ''Defeat all enemies within {0}s'', target_values = []\<rparr>
     = Inr ''Defeat all enemies within s''
   \<and> ChallengeTarget_formatted utc_env \<lparr>target_type = ''{} left'', target_values = []\<rparr>
     = Inr '' left''"
  using formatted_empty_values [of "''Defeat all enemies within ''" "''s''" "''{0}''" utc_env]
        formatted_empty_values [of "[]" "'' left''" "''{}''" utc_env]
  by (simp add: brace_free_def)

text \<open>
  C10 as stated fails: the same does not hold of every template with a single positional
  placeholder. When the placeholder asks for a presentation that a string does not have, as
  \<^verbatim>\<open>{:d}\<close> does, the property raises \<^verbatim>\<open>ValueError\<close> on an empty sequence of values.
\<close>

theorem formatted_empty_values_counterexample:
  "ChallengeTarget_formatted utc_env \<lparr>target_type = ''{:d} left'', target_values = []\<rparr>
     = Inl ValueError"
  by (simp add: ChallengeTarget_formatted_def py_format_def py_format_from.simps
                replacement_field_def field_not_modelled_def field_name_def format_spec_def
                is_letter_def)

subsection \<open>Stripping HTML tags\<close>

lemma strip_no_open: "CHR ''<'' \<notin> set s \<Longrightarrow> remove_html_tags s = s"
  by (induction s) (auto simp: remove_html_tags.simps(2))

lemma strip_no_close: "CHR ''>'' \<notin> set s \<Longrightarrow> remove_html_tags s = s"
  by (induction s) (auto simp: remove_html_tags.simps(2))

lemma strip_text_before:
  "CHR ''<'' \<notin> set pre \<Longrightarrow> remove_html_tags (pre @ s) = pre @ remove_html_tags s"
  by (induction pre) (auto simp: remove_html_tags.simps(2))

lemma strip_one_tag:
  assumes "CHR ''>'' \<notin> set body"
  shows "remove_html_tags (CHR ''<'' # body @ CHR ''>'' # rest) = remove_html_tags rest"
proof -
  have "dropWhile (\<lambda>x. x \<noteq> CHR ''>'') body = []"
    using assms by (auto simp: dropWhile_eq_Nil_conv)
  then have "dropWhile (\<lambda>x. x \<noteq> CHR ''>'') (body @ CHR ''>'' # rest) = CHR ''>'' # rest"
    by (simp add: dropWhile_append3)
  then show ?thesis
    by (simp add: remove_html_tags.simps(2))
qed

text \<open>
  C7. The HTML-stripping transform, which the validators of \<^verbatim>\<open>description\<close> of Blessing
  and LeyLineDisorder apply, removes exactly the tags: a string without \<^verbatim>\<open><\<close> (entities
  included) is unchanged; text before the first \<^verbatim>\<open><\<close> is kept, a tag \<^verbatim>\<open><...>\<close> is
  dropped up to its closing \<^verbatim>\<open>>\<close> and the rest is stripped in the same way; a \<^verbatim>\<open><\<close>
  that is never closed stays. \<^verbatim>\<open><p>Hello <b>World</b></p>\<close> becomes \<^verbatim>\<open>Hello World\<close>.
\<close>

theorem strip_html_tags:
  "remove_html_tags ''<p>Hello <b>World</b></p>'' = ''Hello World''
   \<and> (CHR ''<'' \<notin> set s \<longrightarrow> remove_html_tags s = s)
   \<and> (CHR ''<'' \<notin> set pre \<and> CHR ''>'' \<notin> set body \<longrightarrow>
        remove_html_tags (pre @ ''<'' @ body @ ''>'' @ rest) = pre @ remove_html_tags rest)
   \<and> (CHR ''<'' \<notin> set pre \<and> CHR ''>'' \<notin> set rest \<longrightarrow>
        remove_html_tags (pre @ ''<'' @ rest) = pre @ ''<'' @ rest)
   \<and> Blessing_format_description (JStr s) = Inr (remove_html_tags s)
   \<and> LeyLineDisorder_format_description (JStr s) = Inr (remove_html_tags s)"
proof -
  have ex: "remove_html_tags ''<p>Hello <b>World</b></p>'' = ''Hello World''"
    by (simp add: remove_html_tags.simps(2))
  have unclosed: "remove_html_tags (pre @ ''<'' @ rest) = pre @ ''<'' @ rest"
    if "CHR ''<'' \<notin> set pre" "CHR ''>'' \<notin> set rest"
    using that strip_text_before [of pre "CHR ''<'' # rest"] strip_no_close [of "CHR ''<'' # rest"]
    by simp
  show ?thesis
    using ex unclosed
    by (simp add: strip_no_open strip_text_before strip_one_tag
                  Blessing_format_description_def LeyLineDisorder_format_description_def)
qed

theorem strip_html_tags_witness:
  "remove_html_tags ''<p>Hello <b>World</b></p>'' = ''Hello World''
   \<and> remove_html_tags ''Tom &amp; Jerry'' = ''Tom &amp; Jerry''
   \<and> remove_html_tags (''Hello '' @ ''<'' @ ''b'' @ ''>'' @ ''World</b>'') = ''Hello '' @ remove_html_tags ''World</b>''
   \<and> remove_html_tags (''1 '' @ ''<'' @ '' 2'') = ''1 '' @ ''<'' @ '' 2''
   \<and> Blessing_format_description (JStr ''Tom &amp; Jerry'') = Inr ''Tom &amp; Jerry''
   \<and> LeyLineDisorder_format_description (JStr ''Tom &amp; Jerry'') = Inr ''Tom &amp; Jerry''"
  using strip_html_tags [of "''Tom &amp; Jerry''" "''Hello ''" "''b''" "''World</b>''"]
        strip_html_tags [of "''Tom &amp; Jerry''" "''1 ''" "''b''" "'' 2''"]
  by simp

subsection \<open>Blessing and LeyLineDisorder\<close>

text \<open>
  C9. The parsers of Blessing and of LeyLineDisorder are extensionally equal: on every value
  both fail, with the same failure, or both succeed with the same \<^verbatim>\<open>description\<close>,
  \<^verbatim>\<open>level_config_name\<close> and \<^verbatim>\<open>visible\<close>.
\<close>

theorem blessing_disorder_extensionally_equal:
  "map_sum id (\<lambda>b. (blessing_description b, blessing_level_config_name b, blessing_visible b))
     (model_init (Blessing_validate env) v)
   = map_sum id (\<lambda>l. (disorder_description l, disorder_level_config_name l, disorder_visible l))
     (model_init (LeyLineDisorder_validate env) v)"
proof -
  have same: "Blessing_format_description = LeyLineDisorder_format_description"
    by (rule ext) (simp add: Blessing_format_description_def LeyLineDisorder_format_description_def)
  show ?thesis
  proof (cases v)
    case (JObj d)
    let ?r = "both (required d ''description'' (field_validator LeyLineDisorder_format_description))
               (both (required d ''levelConfigName'' str_validator)
                     (required d ''visible'' (bool_validator env)))"
    show ?thesis
      unfolding JObj model_init_def Blessing_validate_def LeyLineDisorder_validate_def same
      by (cases ?r) (auto simp: case_prod_beta)
  qed (simp_all add: model_init_def)
qed

theorem blessing_disorder_extensionally_equal_witness:
  "model_init (Blessing_validate utc_env)
     (JObj [(''description'', JStr ''<b>Hi</b>''), (''levelConfigName'', JStr ''L''),
            (''visible'', JBool True)])
     = Inr \<lparr>blessing_description = ''Hi'', blessing_level_config_name = ''L'',
            blessing_visible = True\<rparr>
   \<and> model_init (LeyLineDisorder_validate utc_env)
     (JObj [(''description'', JStr ''<b>Hi</b>''), (''levelConfigName'', JStr ''L''),
            (''visible'', JBool True)])
     = Inr \<lparr>disorder_description = ''Hi'', disorder_level_config_name = ''L'',
            disorder_visible = True\<rparr>
   \<and> model_init (Blessing_validate utc_env) (JObj [(''description'', JInt 1)])
     = Inl (Raised TypeError)
   \<and> model_init (LeyLineDisorder_validate utc_env) (JObj [(''description'', JInt 1)])
     = Inl (Raised TypeError)"
  using blessing_disorder_extensionally_equal
          [of utc_env "JObj [(''description'', JStr ''<b>Hi</b>''), (''levelConfigName'', JStr ''L''),
            (''visible'', JBool True)]"]
        blessing_disorder_extensionally_equal [of utc_env "JObj [(''description'', JInt 1)]"]
  by (simp add: model_init_def Blessing_validate_def LeyLineDisorder_validate_def required_def
                field_validator_def Blessing_format_description_def
                LeyLineDisorder_format_description_def str_validator_def bool_validator_def
                remove_html_tags.simps(2))

subsection \<open>Timestamps\<close>

text \<open>
  C3. On every platform whose zone offset at the epoch keeps the local date-time of the epoch
  representable (every real zone does), the timestamp \<open>0\<close> as \<^verbatim>\<open>openTime\<close> gives the unset
  value \<open>None\<close>, and as \<^verbatim>\<open>closeTime\<close> it gives the date-time of the epoch, so the two differ
  on \<open>0\<close>. Every falsy \<^verbatim>\<open>openTime\<close> gives \<open>None\<close>, and so does an absent one.
\<close>

theorem timestamp_zero_open_and_close:
  assumes "datetime_min \<le> utcoffset env 0" and "utcoffset env 0 \<le> datetime_max"
  shows "field_validator (AbyssData_format_open_time env) (JInt 0) = Inr None
       \<and> field_validator (Abyss_format_close_time env) (JInt 0) = Inr (DateTime (utcoffset env 0))
       \<and> map_sum id Some (field_validator (Abyss_format_close_time env) (JInt 0))
           \<noteq> field_validator (AbyssData_format_open_time env) (JInt 0)
       \<and> (\<not> py_truthy env v \<longrightarrow> field_validator (AbyssData_format_open_time env) v = Inr None)
       \<and> (map_of d ''openTime'' = None \<and> AbyssData_validate env d = Inr a \<longrightarrow> data_open_time a = None)"
proof -
  have op: "field_validator (AbyssData_format_open_time env) v = Inr None" if "\<not> py_truthy env v" for v
    using that by (simp add: field_validator_def AbyssData_format_open_time_def)
  have cl: "field_validator (Abyss_format_close_time env) (JInt 0) = Inr (DateTime (utcoffset env 0))"
    using assms
    by (simp add: field_validator_def Abyss_format_close_time_def fromtimestamp_def from_seconds_def)
  have ab: "data_open_time a = None" if "map_of d ''openTime'' = None" "AbyssData_validate env d = Inr a"
    using that by (auto simp: AbyssData_validate_Inr_iff with_default_Inr_iff)
  show ?thesis
    using op [of "JInt 0"] op [of v] cl ab by simp
qed

theorem timestamp_zero_open_and_close_witness:
  "field_validator (AbyssData_format_open_time utc_env) (JInt 0) = Inr None
   \<and> field_validator (Abyss_format_close_time utc_env) (JInt 0) = Inr (DateTime 0)
   \<and> field_validator (AbyssData_format_open_time utc_env) (JStr []) = Inr None
   \<and> AbyssData_validate utc_env [(''floorList'', JList [])] = Inr \<lparr>data_open_time = None, data_floors = []\<rparr>"
proof -
  have v: "AbyssData_validate utc_env [(''floorList'', JList [])] = Inr \<lparr>data_open_time = None, data_floors = []\<rparr>"
    by (simp add: AbyssData_validate_def with_default_def required_def list_validator_def)
  show ?thesis
    using timestamp_zero_open_and_close
            [of utc_env "JStr []" "[(''floorList'', JList [])]" "\<lparr>data_open_time = None, data_floors = []\<rparr>"] v
    by (simp add: utc_env_def datetime_min_def datetime_max_def)
qed

subsection \<open>Keyed mappings\<close>

text \<open>
  C4. For a mapping given as \<^verbatim>\<open>monsterList\<close> (and likewise as \<^verbatim>\<open>items\<close>), whose keys are
  pairwise different as in every dict, the validator applies the item parser to the values in
  insertion order and stops at the first that fails; the keys do not occur in the result. It
  returns a sequence exactly when that sequence lists the parsed values in order, and so the
  \<^verbatim>\<open>enemies\<close> and \<^verbatim>\<open>abyss_items\<close> of a parsed response list the parsed values of the two
  mappings in order.
\<close>

theorem keyed_mapping_in_order:
  assumes "distinct (map fst kvs)"
  shows "AbyssResponse_convert_enemies env (JObj kvs)
           = list_comprehension (model_init (AbyssEnemy_validate env)) (map snd kvs)
       \<and> AbyssResponse_convert_abyss_items env (JObj kvs)
           = list_comprehension (model_init (Abyss_validate env)) (map snd kvs)
       \<and> (AbyssResponse_convert_enemies env (JObj kvs) = Inr es \<longleftrightarrow>
            list_all2 (\<lambda>x e. model_init (AbyssEnemy_validate env) x = Inr e) (map snd kvs) es)
       \<and> (AbyssResponse_convert_abyss_items env (JObj kvs) = Inr cs \<longleftrightarrow>
            list_all2 (\<lambda>x c. model_init (Abyss_validate env) x = Inr c) (map snd kvs) cs)
       \<and> (parse_AbyssResponse env (JObj d) = Inr r \<and> map_of d ''monsterList'' = Some (JObj kvs)
            \<longrightarrow> list_all2 (\<lambda>x e. model_init (AbyssEnemy_validate env) x = Inr e)
                  (map snd kvs) (enemies r))
       \<and> (parse_AbyssResponse env (JObj d) = Inr r \<and> map_of d ''items'' = Some (JObj kvs)
            \<longrightarrow> list_all2 (\<lambda>x c. model_init (Abyss_validate env) x = Inr c)
                  (map snd kvs) (abyss_items r))"
proof -
  have e: "AbyssResponse_convert_enemies env (JObj kvs)
           = list_comprehension (model_init (AbyssEnemy_validate env)) (map snd kvs)"
    and c: "AbyssResponse_convert_abyss_items env (JObj kvs)
           = list_comprehension (model_init (Abyss_validate env)) (map snd kvs)"
    by (simp_all add: AbyssResponse_convert_enemies_def AbyssResponse_convert_abyss_items_def
                      keyed_items_dict [OF assms])
  show ?thesis
    by (auto simp: e c list_comprehension_Inr_iff parse_AbyssResponse_def model_init_def
                   AbyssResponse_validate_Inr_iff)
qed

theorem keyed_mapping_in_order_witness:
  "AbyssResponse_convert_enemies utc_env
     (JObj [(''2'', JObj [(''icon'', JStr ''A''), (''id'', JInt 20), (''link'', JBool False),
                          (''name'', JStr ''first'')]),
            (''1'', JObj [(''icon'', JStr ''B''), (''id'', JInt 10), (''link'', JBool True),
                          (''name'', JStr ''second'')])])
     = Inr [\<lparr>enemy_icon = ''https://api.ambr.top/assets/UI/A.png'', enemy_id = 20,
               enemy_link = False, enemy_name = ''first''\<rparr>,
            \<lparr>enemy_icon = ''https://api.ambr.top/assets/UI/B.png'', enemy_id = 10,
               enemy_link = True, enemy_name = ''second''\<rparr>]
   \<and> AbyssResponse_convert_abyss_items utc_env (JObj [(''7'', JNull)]) = Inl (Raised TypeError)
   \<and> parse_AbyssResponse utc_env
       (JObj [(''monsterList'',
                 JObj [(''2'', JObj [(''icon'', JStr ''A''), (''id'', JInt 20),
                                     (''link'', JBool False), (''name'', JStr ''first'')]),
                       (''1'', JObj [(''icon'', JStr ''B''), (''id'', JInt 10),
                                     (''link'', JBool True), (''name'', JStr ''second'')])]),
              (''items'', JObj [])])
     = Inr \<lparr>enemies =
              [\<lparr>enemy_icon = ''https://api.ambr.top/assets/UI/A.png'', enemy_id = 20,
                 enemy_link = False, enemy_name = ''first''\<rparr>,
               \<lparr>enemy_icon = ''https://api.ambr.top/assets/UI/B.png'', enemy_id = 10,
                 enemy_link = True, enemy_name = ''second''\<rparr>],
            abyss_items = []\<rparr>"
proof -
  let ?kvs = "[(''2'', JObj [(''icon'', JStr ''A''), (''id'', JInt 20),
                            (''link'', JBool False), (''name'', JStr ''first'')]),
               (''1'', JObj [(''icon'', JStr ''B''), (''id'', JInt 10),
                            (''link'', JBool True), (''name'', JStr ''second'')])]"
  let ?d = "[(''monsterList'', JObj ?kvs), (''items'', JObj [])]"
  let ?es = "[\<lparr>enemy_icon = ''https://api.ambr.top/assets/UI/A.png'', enemy_id = 20,
                 enemy_link = False, enemy_name = ''first''\<rparr>,
              \<lparr>enemy_icon = ''https://api.ambr.top/assets/UI/B.png'', enemy_id = 10,
                 enemy_link = True, enemy_name = ''second''\<rparr>]"
  have p: "parse_AbyssResponse utc_env (JObj ?d) = Inr \<lparr>enemies = ?es, abyss_items = []\<rparr>"
    by (simp add: parse_AbyssResponse_def model_init_def AbyssResponse_validate_def
                  AbyssResponse_convert_enemies_def AbyssResponse_convert_abyss_items_def
                  keyed_items_def AbyssEnemy_validate_def required_def field_validator_def
                  AbyssEnemy_convert_icon_url_def icon_url_def int_validator_def
                  bool_validator_def str_validator_def)
  show ?thesis
    using keyed_mapping_in_order
            [where kvs = ?kvs and env = utc_env and d = ?d
               and r = "\<lparr>enemies = ?es, abyss_items = []\<rparr>"]
          keyed_mapping_in_order
            [where kvs = "[]" and env = utc_env and d = ?d
               and r = "\<lparr>enemies = ?es, abyss_items = []\<rparr>"]
          keyed_mapping_in_order [where kvs = "[(''7'', JNull)]" and env = utc_env]
          p
    by (simp add: model_init_def AbyssEnemy_validate_def required_def field_validator_def
                  AbyssEnemy_convert_icon_url_def icon_url_def int_validator_def
                  bool_validator_def str_validator_def)
qed

subsection \<open>Payloads that match the wire schema\<close>



































lemmas expected_defs =
  expected_Response_def expected_Cycle_def expected_Schedule_def expected_Floor_def
  expected_Chamber_def expected_ChallengeTarget_def expected_LeyLineDisorder_def
  expected_Blessing_def expected_Enemy_def mapKeyedCollection_def integers_def
  parseOpenTime_def parseTimestamp_def stripHtmlTags_def parseIconUrl_def
  field_def the_object_def the_list_def the_string_def the_integer_def the_boolean_def






subsection \<open>The payloads that parse are the accepted ones\<close>


































subsection \<open>What a failed parse reports\<close>









































subsection \<open>Entities can be assigned to\<close>

lemma map_of_dict_set: "map_of (dict_set k v kvs) = (map_of kvs)(k \<mapsto> v)"
  by (induction kvs) (auto simp: fun_eq_iff)

text \<open>
  C8 (amended). The entities are not frozen: for each of the nine classes, assigning to a
  declared field of a constructed instance succeeds, replaces the value of that field and
  leaves every other field as it was.
\<close>

theorem assignment_replaces_one_field:
  assumes "name \<in> set (model_fields cls)"
  shows "\<exists>self'. BaseModel_setattr cls self name v = Inr self'
           \<and> map_of self' name = Some v
           \<and> (\<forall>other. other \<noteq> name \<longrightarrow> map_of self' other = map_of self other)"
proof -
  have "name \<notin> set (model_properties cls)"
    using assms by (cases cls) auto
  then have "BaseModel_setattr cls self name v = Inr (dict_set name v self)"
    using assms by (simp add: BaseModel_setattr_def model_config_frozen_def)
  then show ?thesis
    by (simp add: map_of_dict_set)
qed

theorem assignment_replaces_one_field_witness:
  "BaseModel_setattr Blessing_class
     [(''description'', JStr ''Hi''), (''level_config_name'', JStr ''L''), (''visible'', JBool True)]
     ''visible'' (JBool False)
   = Inr [(''description'', JStr ''Hi''), (''level_config_name'', JStr ''L''),
          (''visible'', JBool False)]"
  using assignment_replaces_one_field
          [of "''visible''" Blessing_class
              "[(''description'', JStr ''Hi''), (''level_config_name'', JStr ''L''),
                (''visible'', JBool True)]" "JBool False"]
  by (simp add: BaseModel_setattr_def model_config_frozen_def)

text \<open>
  C8 as stated fails: a Blessing built from a payload with \<^verbatim>\<open>visible\<close> true has its
  \<^verbatim>\<open>visible\<close> changed to false by an assignment.
\<close>

theorem assignment_changes_field_counterexample:
  "model_init (Blessing_validate utc_env)
     (JObj [(''description'', JStr ''Hi''), (''levelConfigName'', JStr ''L''),
            (''visible'', JBool True)])
     = Inr \<lparr>blessing_description = ''Hi'', blessing_level_config_name = ''L'',
            blessing_visible = True\<rparr>
   \<and> BaseModel_setattr Blessing_class
       (Blessing_dict \<lparr>blessing_description = ''Hi'', blessing_level_config_name = ''L'',
                       blessing_visible = True\<rparr>)
       ''visible'' (JBool False)
     = Inr (Blessing_dict \<lparr>blessing_description = ''Hi'', blessing_level_config_name = ''L'',
                           blessing_visible = False\<rparr>)"
  by (simp add: model_init_def Blessing_validate_def required_def field_validator_def
                Blessing_format_description_def str_validator_def bool_validator_def
                remove_html_tags.simps(2) BaseModel_setattr_def model_config_frozen_def
                Blessing_dict_def)

end
